theory Spec2Isabelle
  imports Main
begin

section \<open>JavaScript array and string primitives used by the stores\<close>

text \<open>
  Arrays are lists. \<open>Array.prototype.findIndex\<close> returns the first position whose
  element satisfies the predicate, or \<open>-1\<close>; the model returns \<open>None\<close> for \<open>-1\<close>.
\<close>

fun findIndex :: "('a \<Rightarrow> bool) \<Rightarrow> 'a list \<Rightarrow> nat option" where
  "findIndex p [] = None"
| "findIndex p (x # xs) = (if p x then Some 0 else map_option Suc (findIndex p xs))"

text \<open>
  \<open>xs.splice(i, 1)\<close> with a position \<open>i\<close> that \<open>findIndex\<close> returned: the element at
  \<open>i\<close> is removed (nothing is removed when \<open>i\<close> is past the end).
\<close>

definition splice_del :: "nat \<Rightarrow> 'a list \<Rightarrow> 'a list" where
  "splice_del i xs = take i xs @ drop (Suc i) xs"

text \<open>
  \<open>xs.splice(i, 0, x)\<close>: the start position is relative to the end when negative and
  is clamped into \<open>0 .. xs.length\<close>; \<open>x\<close> is inserted there.
\<close>

definition splice_pos :: "int \<Rightarrow> 'a list \<Rightarrow> nat" where
  "splice_pos i xs =
     (if i < 0 then nat (int (length xs) + i) else min (nat i) (length xs))"

definition splice_ins :: "int \<Rightarrow> 'a \<Rightarrow> 'a list \<Rightarrow> 'a list" where
  "splice_ins i x xs = take (splice_pos i xs) xs @ x # drop (splice_pos i xs) xs"

text \<open>\<open>xs.slice(0, e)\<close> and \<open>xs.slice(-n)\<close> for a positive \<open>n\<close>.\<close>

definition slice_to :: "int \<Rightarrow> 'a list \<Rightarrow> 'a list" where
  "slice_to e xs = take (if e < 0 then nat (int (length xs) + e) else nat e) xs"

definition slice_last :: "nat \<Rightarrow> 'a list \<Rightarrow> 'a list" where
  "slice_last n xs = drop (length xs - n) xs"

text \<open>
  \<open>xs[i]\<close> for a number \<open>i\<close>: \<open>undefined\<close> (here \<open>None\<close>) outside the array.
\<close>

definition at_index :: "'a list \<Rightarrow> int \<Rightarrow> 'a option" where
  "at_index xs i = (if 0 \<le> i \<and> i < int (length xs) then Some (xs ! nat i) else None)"

text \<open>
  A string is its sequence of UTF-16 code units, as \<open>length\<close>, \<open>slice\<close> and \<open>trim\<close>
  see it. A code unit is a number below \<open>2^16\<close>; nothing here computes with code units,
  so they are natural numbers. \<open>js\<close> writes an ASCII literal as its code units.
\<close>

type_synonym code_unit = nat

type_synonym jstring = "code_unit list"

definition js :: "string \<Rightarrow> jstring" where
  "js s = map of_char s"

text \<open>
  \<open>String.prototype.trim\<close> strips white space and line terminators at both ends:
  tab, vertical tab, form feed, the byte order mark \<open>U+FEFF\<close>, the space separators of
  Unicode (\<open>U+0020\<close>, \<open>U+00A0\<close>, \<open>U+1680\<close>, \<open>U+2000\<close> to \<open>U+200A\<close>, \<open>U+202F\<close>,
  \<open>U+205F\<close>, \<open>U+3000\<close>), line feed, carriage return, \<open>U+2028\<close> and \<open>U+2029\<close>. Each is
  one code unit.
\<close>

definition isSpace :: "code_unit \<Rightarrow> bool" where
  "isSpace c =
     (c = 0x09 \<or> c = 0x0B \<or> c = 0x0C \<or> c = 0xFEFF \<or>
      c = 0x20 \<or> c = 0xA0 \<or> c = 0x1680 \<or> (0x2000 \<le> c \<and> c \<le> 0x200A) \<or>
      c = 0x202F \<or> c = 0x205F \<or> c = 0x3000 \<or>
      c = 0x0A \<or> c = 0x0D \<or> c = 0x2028 \<or> c = 0x2029)"

definition trim :: "jstring \<Rightarrow> jstring" where
  "trim s = rev (dropWhile isSpace (rev (dropWhile isSpace s)))"

text \<open>
  Truthiness of a \<open>string | null\<close>: \<open>null\<close> and the empty string are falsy.
  \<open>s || undefined\<close> and \<open>s || ''\<close> follow.
\<close>

definition truthy :: "jstring option \<Rightarrow> bool" where
  "truthy s = (case s of None \<Rightarrow> False | Some t \<Rightarrow> t \<noteq> [])"

definition or_undefined :: "jstring \<Rightarrow> jstring option" where
  "or_undefined s = (if s = [] then None else Some s)"

definition or_empty :: "jstring option \<Rightarrow> jstring" where
  "or_empty s = (case s of None \<Rightarrow> [] | Some t \<Rightarrow> t)"


section \<open>The kanban board: data model\<close>

datatype Priority = High | Medium | Low

datatype PriorityFilter = All | Only Priority

datatype DropPosition = Before | After

record KanbanCard =
  card_id :: jstring
  card_title :: jstring
  card_description :: "jstring option"
  card_priority :: Priority
  card_assignee :: "jstring option"
  card_createdAt :: int

record KanbanColumn =
  col_id :: jstring
  col_title :: jstring
  col_cards :: "KanbanCard list"
  col_color :: jstring

text \<open>The fields every command has (\<open>BaseCommand\<close>); its \<open>type\<close> is the constructor.\<close>

record BaseCommand =
  timestamp :: int
  description :: jstring
  seqId :: int

record Place =
  columnId :: jstring
  index :: int

record EditValues =
  ev_title :: jstring
  ev_priority :: Priority
  ev_description :: jstring
  ev_assignee :: jstring

datatype Command =
    Move BaseCommand jstring jstring Place Place
  | Create BaseCommand KanbanCard jstring
  | Edit BaseCommand jstring EditValues EditValues
  | Delete BaseCommand KanbanCard jstring int

fun base :: "Command \<Rightarrow> BaseCommand" where
  "base (Move b cardId cardTitle src dst) = b"
| "base (Create b crd colId) = b"
| "base (Edit b cardId oldValues newValues) = b"
| "base (Delete b crd colId idx) = b"

definition MAX_TITLE_LENGTH :: nat where
  "MAX_TITLE_LENGTH = 200"

definition MAX_HISTORY_SIZE :: nat where
  "MAX_HISTORY_SIZE = 50"

record KanbanContext =
  columns :: "KanbanColumn list"
  draggedCardId :: "jstring option"
  sourceColumnId :: "jstring option"
  dropTargetColumnId :: "jstring option"
  dropTargetCardId :: "jstring option"
  dropPosition :: DropPosition
  editingCardId :: "jstring option"
  editTitle :: jstring
  editPriority :: Priority
  editDescription :: jstring
  editAssignee :: jstring
  searchQuery :: jstring
  filterPriority :: PriorityFilter
  history :: "Command list"
  historyIndex :: int
  newCardModalOpen :: bool
  newCardColumnId :: "jstring option"
  newCardTitle :: jstring
  newCardPriority :: Priority
  newCardDescription :: jstring
  newCardAssignee :: jstring
  revisionPanelOpen :: bool
  hoveredRevisionId :: "jstring option"

text \<open>
  The module keeps one counter beside the context, \<open>commandSeqId\<close>; handlers that record
  a command increment it. The state a handler runs on is the context and the counter.
\<close>

record KanbanState =
  kctx :: KanbanContext
  commandSeqId :: int


section \<open>Command execution\<close>

text \<open>
  A column or card that the source holds by reference is held here by its position:
  \<open>findColumn\<close> returns the position of the first column with the id, and
  \<open>findCardLocation\<close> the position of the first column holding a card with the id
  together with the card's position in it. \<open>upd_cards\<close> is the in-place change of one
  column's card array. Cards and commands are values: a command holds the card it stores
  as the source's command object holds it while the command is executed or reversed.
\<close>

definition findColumn :: "KanbanColumn list \<Rightarrow> jstring \<Rightarrow> nat option" where
  "findColumn cols i = findIndex (\<lambda>c. col_id c = i) cols"

fun findCardLocation :: "KanbanColumn list \<Rightarrow> jstring \<Rightarrow> (nat \<times> nat) option" where
  "findCardLocation [] cardId = None"
| "findCardLocation (c # cs) cardId =
     (case findIndex (\<lambda>k. card_id k = cardId) (col_cards c) of
        Some i \<Rightarrow> Some (0, i)
      | None \<Rightarrow> map_option (\<lambda>(ci, i). (Suc ci, i)) (findCardLocation cs cardId))"

definition upd_cards ::
  "nat \<Rightarrow> (KanbanCard list \<Rightarrow> KanbanCard list) \<Rightarrow> KanbanColumn list \<Rightarrow> KanbanColumn list" where
  "upd_cards ci f cols = cols[ci := (cols ! ci)\<lparr>col_cards := f (col_cards (cols ! ci))\<rparr>]"

definition card_at :: "KanbanColumn list \<Rightarrow> nat \<Rightarrow> nat \<Rightarrow> KanbanCard" where
  "card_at cols ci k = col_cards (cols ! ci) ! k"

definition set_values :: "EditValues \<Rightarrow> KanbanCard \<Rightarrow> KanbanCard" where
  "set_values v crd =
     crd\<lparr>card_title := ev_title v,
          card_priority := ev_priority v,
          card_description := or_undefined (ev_description v),
          card_assignee := or_undefined (ev_assignee v)\<rparr>"

fun executeCommand :: "KanbanColumn list \<Rightarrow> Command \<Rightarrow> KanbanColumn list" where
  "executeCommand cols (Move b cardId cardTitle src dst) =
     (case findCardLocation cols cardId of
        None \<Rightarrow> cols
      | Some (ci, k) \<Rightarrow>
          (let crd = card_at cols ci k;
               cols1 = upd_cards ci (splice_del k) cols
           in case findColumn cols1 (columnId dst) of
                None \<Rightarrow> cols1
              | Some tj \<Rightarrow> upd_cards tj (splice_ins (index dst) crd) cols1))"
| "executeCommand cols (Create b crd colId) =
     (case findColumn cols colId of
        None \<Rightarrow> cols
      | Some ci \<Rightarrow> upd_cards ci (\<lambda>cs. cs @ [crd]) cols)"
| "executeCommand cols (Edit b cardId oldValues newValues) =
     (case findCardLocation cols cardId of
        None \<Rightarrow> cols
      | Some (ci, k) \<Rightarrow> upd_cards ci (\<lambda>cs. cs[k := set_values newValues (cs ! k)]) cols)"
| "executeCommand cols (Delete b crd colId idx) =
     (case findColumn cols colId of
        None \<Rightarrow> cols
      | Some ci \<Rightarrow>
          (case findIndex (\<lambda>c. card_id c = card_id crd) (col_cards (cols ! ci)) of
             None \<Rightarrow> cols
           | Some k \<Rightarrow> upd_cards ci (splice_del k) cols))"

fun reverseCommand :: "KanbanColumn list \<Rightarrow> Command \<Rightarrow> KanbanColumn list" where
  "reverseCommand cols (Move b cardId cardTitle src dst) =
     (case findCardLocation cols cardId of
        None \<Rightarrow> cols
      | Some (ci, k) \<Rightarrow>
          (let crd = card_at cols ci k;
               cols1 = upd_cards ci (splice_del k) cols
           in case findColumn cols1 (columnId src) of
                None \<Rightarrow> cols1
              | Some sj \<Rightarrow> upd_cards sj (splice_ins (index src) crd) cols1))"
| "reverseCommand cols (Create b crd colId) =
     (case findColumn cols colId of
        None \<Rightarrow> cols
      | Some ci \<Rightarrow>
          (case findIndex (\<lambda>c. card_id c = card_id crd) (col_cards (cols ! ci)) of
             None \<Rightarrow> cols
           | Some k \<Rightarrow> upd_cards ci (splice_del k) cols))"
| "reverseCommand cols (Edit b cardId oldValues newValues) =
     (case findCardLocation cols cardId of
        None \<Rightarrow> cols
      | Some (ci, k) \<Rightarrow> upd_cards ci (\<lambda>cs. cs[k := set_values oldValues (cs ! k)]) cols)"
| "reverseCommand cols (Delete b crd colId idx) =
     (case findColumn cols colId of
        None \<Rightarrow> cols
      | Some ci \<Rightarrow> upd_cards ci (splice_ins idx crd) cols)"

text \<open>\<open>pushCommand\<close>: truncate the redo branch, append, enforce the size limit.\<close>

definition pushCommand :: "KanbanContext \<Rightarrow> Command \<Rightarrow> KanbanContext" where
  "pushCommand c command =
     (let h = slice_to (historyIndex c + 1) (history c) @ [command]
      in if length h > MAX_HISTORY_SIZE
         then let h' = slice_last MAX_HISTORY_SIZE h
              in c\<lparr>history := h', historyIndex := min (historyIndex c) (int (length h') - 1)\<rparr>
         else c\<lparr>history := h, historyIndex := int (length h) - 1\<rparr>)"


section \<open>Undo, redo and time travel\<close>

text \<open>
  Reading \<open>history[i]\<close> outside the log gives \<open>undefined\<close>, and \<open>executeCommand\<close> and
  \<open>reverseCommand\<close> then fail on \<open>command.type\<close> with a \<open>TypeError\<close>.
\<close>

datatype error = TypeError

definition performUndo :: "KanbanContext \<Rightarrow> error + KanbanContext" where
  "performUndo c =
     (if historyIndex c \<ge> 0
      then (case at_index (history c) (historyIndex c) of
              None \<Rightarrow> Inl TypeError
            | Some command \<Rightarrow>
                Inr (c\<lparr>columns := reverseCommand (columns c) command,
                       historyIndex := historyIndex c - 1\<rparr>))
      else Inr c)"

definition performRedo :: "KanbanContext \<Rightarrow> error + KanbanContext" where
  "performRedo c =
     (if historyIndex c < int (length (history c)) - 1
      then (case at_index (history c) (historyIndex c + 1) of
              None \<Rightarrow> Inl TypeError
            | Some command \<Rightarrow>
                Inr (c\<lparr>historyIndex := historyIndex c + 1,
                       columns := executeCommand (columns c) command\<rparr>))
      else Inr c)"

text \<open>The two loops of \<open>jumpToRevision\<close>: \<open>for (i = lo; i <= t; i++)\<close> and
  \<open>for (i = hi; i > t; i--)\<close>.\<close>

function exec_loop ::
  "Command list \<Rightarrow> int \<Rightarrow> int \<Rightarrow> KanbanColumn list \<Rightarrow> error + KanbanColumn list" where
  "exec_loop h i t cols =
     (if i \<le> t
      then (case at_index h i of
              None \<Rightarrow> Inl TypeError
            | Some command \<Rightarrow> exec_loop h (i + 1) t (executeCommand cols command))
      else Inr cols)"
  by pat_completeness auto
termination
  by (relation "measure (\<lambda>(h, i, t, cols). nat (t + 1 - i))") auto

function reverse_loop ::
  "Command list \<Rightarrow> int \<Rightarrow> int \<Rightarrow> KanbanColumn list \<Rightarrow> error + KanbanColumn list" where
  "reverse_loop h i t cols =
     (if i > t
      then (case at_index h i of
              None \<Rightarrow> Inl TypeError
            | Some command \<Rightarrow> reverse_loop h (i - 1) t (reverseCommand cols command))
      else Inr cols)"
  by pat_completeness auto
termination
  by (relation "measure (\<lambda>(h, i, t, cols). nat (i - t))") auto

text \<open>\<open>item\<close> is the command of the revision entry that was clicked, if any.\<close>

definition jumpToRevision :: "Command option \<Rightarrow> KanbanContext \<Rightarrow> error + KanbanContext" where
  "jumpToRevision item c =
     (case item of
        None \<Rightarrow> Inr c
      | Some command \<Rightarrow>
          (case findIndex (\<lambda>x. seqId (base x) = seqId (base command)) (history c) of
             None \<Rightarrow> Inr c
           | Some t \<Rightarrow>
               (let targetIndex = int t in
                if targetIndex > historyIndex c
                then (case exec_loop (history c) (historyIndex c + 1) targetIndex (columns c) of
                        Inl e \<Rightarrow> Inl e
                      | Inr cols \<Rightarrow> Inr (c\<lparr>columns := cols, historyIndex := targetIndex\<rparr>))
                else if targetIndex < historyIndex c
                then (case reverse_loop (history c) (historyIndex c) targetIndex (columns c) of
                        Inl e \<Rightarrow> Inl e
                      | Inr cols \<Rightarrow> Inr (c\<lparr>columns := cols, historyIndex := targetIndex\<rparr>))
                else Inr (c\<lparr>historyIndex := targetIndex\<rparr>))))"

function resetToInitial :: "KanbanContext \<Rightarrow> error + KanbanContext" where
  "resetToInitial c =
     (if historyIndex c \<ge> 0
      then (case at_index (history c) (historyIndex c) of
              None \<Rightarrow> Inl TypeError
            | Some command \<Rightarrow>
                resetToInitial (c\<lparr>columns := reverseCommand (columns c) command,
                                  historyIndex := historyIndex c - 1\<rparr>))
      else Inr c)"
  by pat_completeness auto
termination
  by (relation "measure (\<lambda>c. nat (historyIndex c + 1))") auto


section \<open>Drag and drop, editing and creating cards\<close>

definition resetDragState :: "KanbanContext \<Rightarrow> KanbanContext" where
  "resetDragState c =
     c\<lparr>draggedCardId := None, sourceColumnId := None,
       dropTargetColumnId := None, dropTargetCardId := None\<rparr>"

definition resetNewCardModal :: "KanbanContext \<Rightarrow> KanbanContext" where
  "resetNewCardModal c =
     c\<lparr>newCardModalOpen := False, newCardColumnId := None, newCardTitle := [],
       newCardDescription := [], newCardAssignee := []\<rparr>"

definition sanitizeTitle :: "jstring \<Rightarrow> jstring" where
  "sanitizeTitle title = take MAX_TITLE_LENGTH (trim title)"

text \<open>The glyphs of the generated descriptions: \<open>U+2192\<close>, \<open>U+270E\<close> and the double quote.\<close>

definition arrow :: jstring where
  "arrow = [0x2192]"

definition pencil :: jstring where
  "pencil = [0x270E]"

definition quoted :: "jstring \<Rightarrow> jstring" where
  "quoted s = 0x22 # s @ [0x22]"

fun join_comma :: "jstring list \<Rightarrow> jstring" where
  "join_comma [] = []"
| "join_comma [x] = x"
| "join_comma (x # y # ys) = x @ js '', '' @ join_comma (y # ys)"

definition getEditDescription :: "EditValues \<Rightarrow> EditValues \<Rightarrow> jstring" where
  "getEditDescription oldValues newValues =
     (let changes =
            (if ev_title oldValues \<noteq> ev_title newValues then [js ''title''] else []) @
            (if ev_priority oldValues \<noteq> ev_priority newValues then [js ''priority''] else []) @
            (if ev_description oldValues \<noteq> ev_description newValues then [js ''description''] else []) @
            (if ev_assignee oldValues \<noteq> ev_assignee newValues then [js ''assignee''] else [])
      in if changes = []
         then quoted (ev_title newValues) @ js '' '' @ pencil
         else quoted (ev_title newValues) @ js '' '' @ pencil @ js '' '' @ join_comma changes)"

text \<open>
  \<open>handleDropOnColumn\<close>: \<open>item\<close> is the column the card is dropped on, \<open>now\<close> the value
  of \<open>Date.now()\<close>. The event's \<open>preventDefault\<close> and \<open>stopPropagation\<close> touch no state.
\<close>

definition handleDropOnColumn :: "int \<Rightarrow> KanbanColumn option \<Rightarrow> KanbanState \<Rightarrow> KanbanState" where
  "handleDropOnColumn now item s =
     (let c = kctx s; targetColumnId = map_option col_id item in
      if \<not> (truthy (draggedCardId c) \<and> truthy (sourceColumnId c) \<and> truthy targetColumnId)
      then s
      else
        (case (draggedCardId c, sourceColumnId c, targetColumnId) of
           (Some dragged, Some srcId, Some tgtId) \<Rightarrow>
             (case findColumn (columns c) srcId of
                None \<Rightarrow> s
              | Some si \<Rightarrow>
             (case findColumn (columns c) tgtId of
                None \<Rightarrow> s
              | Some ti \<Rightarrow>
             (case findIndex (\<lambda>k. card_id k = dragged) (col_cards (columns c ! si)) of
                None \<Rightarrow> s
              | Some cardIndex \<Rightarrow>
                 (let crd = card_at (columns c) si cardIndex;
                      tcards = col_cards (columns c ! ti);
                      insertIndex =
                        (if truthy (dropTargetCardId c)
                         then (case findIndex (\<lambda>k. Some (card_id k) = dropTargetCardId c) tcards of
                                 None \<Rightarrow> length tcards
                               | Some targetIndex \<Rightarrow>
                                   (case dropPosition c of
                                      Before \<Rightarrow> targetIndex
                                    | After \<Rightarrow> targetIndex + 1))
                         else length tcards)
                  in if si = ti \<and>
                        (if insertIndex > cardIndex then insertIndex - 1 else insertIndex) = cardIndex
                     then s\<lparr>kctx := resetDragState c\<rparr>
                     else
                       (let actualInsertIndex =
                              (if si = ti \<and> insertIndex > cardIndex
                               then insertIndex - 1 else insertIndex);
                            sq = commandSeqId s + 1;
                            command =
                              Move \<lparr>timestamp = now,
                                    description =
                                      col_title (columns c ! si) @ js '' '' @ arrow @ js '' '' @
                                      col_title (columns c ! ti),
                                    seqId = sq\<rparr>
                                (card_id crd) (card_title crd)
                                \<lparr>columnId = srcId, index = int cardIndex\<rparr>
                                \<lparr>columnId = tgtId, index = int insertIndex\<rparr>;
                            cols1 = upd_cards si (splice_del cardIndex) (columns c);
                            cols2 = upd_cards ti (splice_ins (int actualInsertIndex) crd) cols1
                        in s\<lparr>kctx := resetDragState (pushCommand (c\<lparr>columns := cols2\<rparr>) command),
                             commandSeqId := sq\<rparr>)))))
         | _ \<Rightarrow> s))"

definition handleDragEnd :: "KanbanState \<Rightarrow> KanbanState" where
  "handleDragEnd s = s\<lparr>kctx := resetDragState (kctx s)\<rparr>"

text \<open>\<open>performEdit\<close>, with \<open>now\<close> the value of \<open>Date.now()\<close>.\<close>

definition performEdit :: "int \<Rightarrow> KanbanState \<Rightarrow> KanbanState" where
  "performEdit now s =
     (let c = kctx s; sanitizedTitle = sanitizeTitle (editTitle c) in
      if \<not> truthy (editingCardId c) \<or> sanitizedTitle = []
      then s\<lparr>kctx := c\<lparr>editingCardId := None\<rparr>\<rparr>
      else
        (case editingCardId c of
           None \<Rightarrow> s\<lparr>kctx := c\<lparr>editingCardId := None\<rparr>\<rparr>
         | Some eid \<Rightarrow>
             (case findCardLocation (columns c) eid of
                None \<Rightarrow> s\<lparr>kctx := c\<lparr>editingCardId := None\<rparr>\<rparr>
              | Some (ci, k) \<Rightarrow>
                  (let crd = card_at (columns c) ci k;
                       oldValues =
                         \<lparr>ev_title = card_title crd, ev_priority = card_priority crd,
                          ev_description = or_empty (card_description crd),
                          ev_assignee = or_empty (card_assignee crd)\<rparr>;
                       newValues =
                         \<lparr>ev_title = sanitizedTitle, ev_priority = editPriority c,
                          ev_description = trim (editDescription c),
                          ev_assignee = trim (editAssignee c)\<rparr>;
                       sq = commandSeqId s + 1;
                       command =
                         Edit \<lparr>timestamp = now,
                               description = getEditDescription oldValues newValues,
                               seqId = sq\<rparr>
                           eid oldValues newValues;
                       cols1 = upd_cards ci (\<lambda>cs. cs[k := set_values newValues (cs ! k)]) (columns c)
                   in s\<lparr>kctx := (pushCommand (c\<lparr>columns := cols1\<rparr>) command)\<lparr>editingCardId := None\<rparr>,
                        commandSeqId := sq\<rparr>))))"

text \<open>
  \<open>createCard\<close>, with \<open>newId\<close> the value of \<open>generateId()\<close> and \<open>createdAt\<close>, \<open>now\<close> the
  two values of \<open>Date.now()\<close>. The warning written to the console touches no state.
\<close>

definition createCard :: "jstring \<Rightarrow> int \<Rightarrow> int \<Rightarrow> KanbanState \<Rightarrow> KanbanState" where
  "createCard newId createdAt now s =
     (let c = kctx s; sanitizedTitle = sanitizeTitle (newCardTitle c) in
      if sanitizedTitle = [] \<or> \<not> truthy (newCardColumnId c)
      then s
      else
        (case newCardColumnId c of
           None \<Rightarrow> s
         | Some colId \<Rightarrow>
             (case findColumn (columns c) colId of
                None \<Rightarrow> s\<lparr>kctx := resetNewCardModal c\<rparr>
              | Some ci \<Rightarrow>
                  (let newCard =
                         \<lparr>card_id = newId, card_title = sanitizedTitle,
                          card_description = or_undefined (trim (newCardDescription c)),
                          card_priority = newCardPriority c,
                          card_assignee = or_undefined (trim (newCardAssignee c)),
                          card_createdAt = createdAt\<rparr>;
                       sq = commandSeqId s + 1;
                       command =
                         Create \<lparr>timestamp = now,
                                 description = js ''+ '' @ quoted (card_title newCard),
                                 seqId = sq\<rparr>
                           newCard colId;
                       cols1 = upd_cards ci (\<lambda>cs. cs @ [newCard]) (columns c)
                   in s\<lparr>kctx := (pushCommand (c\<lparr>columns := cols1\<rparr>) command)
                                 \<lparr>newCardModalOpen := False, newCardTitle := []\<rparr>,
                        commandSeqId := sq\<rparr>))))"


section \<open>The todo list\<close>

record TodoItem =
  todo_id :: int
  todo_text :: jstring
  completed :: bool

record TodoContext =
  todos :: "TodoItem list"
  newTodoText :: jstring
  nextId :: int

definition addTodoItem :: "TodoContext \<Rightarrow> TodoContext" where
  "addTodoItem c =
     (let t = trim (newTodoText c) in
      if t \<noteq> []
      then c\<lparr>todos := todos c @ [\<lparr>todo_id = nextId c, todo_text = t, completed = False\<rparr>],
             nextId := nextId c + 1,
             newTodoText := []\<rparr>
      else c)"

definition updateNewTodoText :: "jstring \<Rightarrow> TodoContext \<Rightarrow> TodoContext" where
  "updateNewTodoText v c = c\<lparr>newTodoText := v\<rparr>"

definition addTodo :: "TodoContext \<Rightarrow> TodoContext" where
  "addTodo c = addTodoItem c"

text \<open>
  \<open>toggleTodo\<close>: \<open>context.item\<close> is the todo of the list entry the action runs in, an
  element of \<open>todos\<close> held by reference; here it is the position of that element.
\<close>

definition toggleTodo :: "nat option \<Rightarrow> TodoContext \<Rightarrow> TodoContext" where
  "toggleTodo item c =
     (case item of
        None \<Rightarrow> c
      | Some i \<Rightarrow>
          (if i < length (todos c)
           then c\<lparr>todos := (todos c)[i := (todos c ! i)\<lparr>completed := \<not> completed (todos c ! i)\<rparr>]\<rparr>
           else c))"

definition remainingItems :: "TodoContext \<Rightarrow> nat" where
  "remainingItems c = length (filter (\<lambda>t. \<not> completed t) (todos c))"


section \<open>Live search\<close>

record SearchResult =
  sr_id :: int
  sr_title :: jstring
  sr_description :: jstring
  sr_category :: jstring

record LiveSearchContext =
  query :: jstring
  results :: "SearchResult list"
  isLoading :: bool
  selectedIndex :: int
  isOpen :: bool
  recentSearches :: "jstring list"
  pendingSearchId :: "int option"

text \<open>
  \<open>updateQuery\<close> is a generator. Its first segment runs to the first \<open>yield\<close> (or to the
  early \<open>return\<close>) and, when it suspends, has captured \<open>searchId\<close>. The second segment
  only calls \<open>simulateSearch\<close> and suspends on its promise. The last segment runs when the
  promise has settled, with the promise's outcome.
\<close>

definition updateQuery_start :: "jstring \<Rightarrow> LiveSearchContext \<Rightarrow> LiveSearchContext \<times> int option" where
  "updateQuery_start newQuery c =
     (let c1 = c\<lparr>query := newQuery, selectedIndex := - 1\<rparr> in
      if trim newQuery = []
      then (c1\<lparr>results := [], isOpen := False\<rparr>, None)
      else
        (let searchId = (case pendingSearchId c1 of None \<Rightarrow> 0 | Some n \<Rightarrow> n) + 1
         in (c1\<lparr>isLoading := True, isOpen := True, pendingSearchId := Some searchId\<rparr>,
             Some searchId)))"

datatype 'a settled = Fulfilled 'a | Rejected

definition updateQuery_resume ::
  "int \<Rightarrow> SearchResult list settled \<Rightarrow> LiveSearchContext \<Rightarrow> LiveSearchContext" where
  "updateQuery_resume searchId outcome c =
     (let c1 =
            (case outcome of
               Fulfilled rs \<Rightarrow>
                 (if pendingSearchId c = Some searchId then c\<lparr>results := rs\<rparr> else c)
             | Rejected \<Rightarrow>
                 (if pendingSearchId c = Some searchId
                  then c\<lparr>results := [], isLoading := False\<rparr> else c))
      in if pendingSearchId c1 = Some searchId then c1\<lparr>isLoading := False\<rparr> else c1)"


section \<open>A small board, for evaluating the model\<close>

definition mk_card :: "jstring \<Rightarrow> jstring \<Rightarrow> KanbanCard" where
  "mk_card i t =
     \<lparr>card_id = i, card_title = t, card_description = None, card_priority = Medium,
      card_assignee = None, card_createdAt = 0\<rparr>"

definition demo_columns :: "KanbanColumn list" where
  "demo_columns =
     [\<lparr>col_id = js ''todo'', col_title = js ''To Do'',
       col_cards = [mk_card (js ''a'') (js ''A''), mk_card (js ''b'') (js ''B''), mk_card (js ''c'') (js ''C'')],
       col_color = js ''red''\<rparr>,
      \<lparr>col_id = js ''done'', col_title = js ''Done'',
       col_cards = [mk_card (js ''d'') (js ''D'')],
       col_color = js ''green''\<rparr>]"

definition demo_context :: KanbanContext where
  "demo_context =
     \<lparr>columns = demo_columns,
      draggedCardId = None, sourceColumnId = None,
      dropTargetColumnId = None, dropTargetCardId = None, dropPosition = Before,
      editingCardId = None, editTitle = [], editPriority = Medium,
      editDescription = [], editAssignee = [],
      searchQuery = [], filterPriority = All,
      history = [], historyIndex = - 1,
      newCardModalOpen = False, newCardColumnId = None, newCardTitle = [],
      newCardPriority = Medium, newCardDescription = [], newCardAssignee = [],
      revisionPanelOpen = False, hoveredRevisionId = None\<rparr>"

definition demo_create :: "nat \<Rightarrow> Command" where
  "demo_create n =
     Create \<lparr>timestamp = 0, description = [], seqId = int n\<rparr> (mk_card (js ''n'') (js ''N'')) (js ''done'')"


text \<open>The invariant that ties the index to the log.\<close>

definition history_inv :: "KanbanContext \<Rightarrow> bool" where
  "history_inv c =
     (- 1 \<le> historyIndex c \<and> historyIndex c \<le> int (length (history c)) - 1 \<and>
      length (history c) \<le> MAX_HISTORY_SIZE)"

definition demo_log :: KanbanContext where
  "demo_log =
     demo_context\<lparr>history := [demo_create 1, demo_create 2, demo_create 3], historyIndex := 0\<rparr>"


definition all_card_ids :: "KanbanColumn list \<Rightarrow> jstring list" where
  "all_card_ids cols = concat (map (\<lambda>c. map card_id (col_cards c)) cols)"

definition column_ids :: "KanbanColumn list \<Rightarrow> jstring list list" where
  "column_ids cols = map (\<lambda>c. map card_id (col_cards c)) cols"

text \<open>Commands on the small board: a move across columns, an edit, a delete.\<close>

definition demo_move_across :: Command where
  "demo_move_across =
     Move \<lparr>timestamp = 5, description = js ''To Do '' @ arrow @ js '' Done'', seqId = 1\<rparr>
       (js ''a'') (js ''A'') \<lparr>columnId = js ''todo'', index = 0\<rparr> \<lparr>columnId = js ''done'', index = 1\<rparr>"

definition demo_edit :: Command where
  "demo_edit =
     Edit \<lparr>timestamp = 5, description = [], seqId = 2\<rparr> (js ''b'')
       \<lparr>ev_title = js ''B'', ev_priority = Medium, ev_description = [], ev_assignee = []\<rparr>
       \<lparr>ev_title = js ''B2'', ev_priority = High, ev_description = js ''text'', ev_assignee = []\<rparr>"

definition demo_delete :: Command where
  "demo_delete =
     Delete \<lparr>timestamp = 5, description = js ''C'', seqId = 3\<rparr> (mk_card (js ''c'') (js ''C'')) (js ''todo'') 2"

text \<open>A delete command for a card that is not on the board.\<close>

definition demo_stray_delete :: Command where
  "demo_stray_delete =
     Delete \<lparr>timestamp = 5, description = js ''Z'', seqId = 3\<rparr> (mk_card (js ''z'') (js ''Z'')) (js ''done'') 0"

text \<open>A board with two cards of one id, and a move of the first of them.\<close>

definition demo_twins :: "KanbanColumn list" where
  "demo_twins =
     [\<lparr>col_id = js ''todo'', col_title = js ''To Do'', col_cards = [mk_card (js ''a'') (js ''A'')],
       col_color = js ''red''\<rparr>,
      \<lparr>col_id = js ''done'', col_title = js ''Done'', col_cards = [mk_card (js ''a'') (js ''A2'')],
       col_color = js ''green''\<rparr>]"

text \<open>A board whose card has the empty string as its description, being edited.\<close>

definition demo_blank_columns :: "KanbanColumn list" where
  "demo_blank_columns =
     [\<lparr>col_id = js ''todo'', col_title = js ''To Do'',
       col_cards = [(mk_card (js ''a'') (js ''A''))\<lparr>card_description := Some []\<rparr>],
       col_color = js ''red''\<rparr>]"

definition demo_blank :: KanbanState where
  "demo_blank =
     \<lparr>kctx = demo_context\<lparr>columns := demo_blank_columns, editingCardId := Some (js ''a''),
                            editTitle := js ''A2''\<rparr>,
      commandSeqId = 0\<rparr>"

text \<open>Card \<open>a\<close> dragged from the first position and dropped after card \<open>b\<close>.\<close>

definition demo_drag :: KanbanState where
  "demo_drag =
     \<lparr>kctx = demo_context\<lparr>draggedCardId := Some (js ''a''), sourceColumnId := Some (js ''todo''),
                            dropTargetCardId := Some (js ''b''), dropPosition := After\<rparr>,
      commandSeqId = 0\<rparr>"

definition demo_reorder :: KanbanState where
  "demo_reorder = handleDropOnColumn 5 (Some (demo_columns ! 0)) demo_drag"

definition demo_move :: Command where
  "demo_move =
     Move \<lparr>timestamp = 5, description = js ''To Do '' @ arrow @ js '' To Do'', seqId = 1\<rparr>
       (js ''a'') (js ''A'') \<lparr>columnId = js ''todo'', index = 0\<rparr> \<lparr>columnId = js ''todo'', index = 2\<rparr>"

text \<open>Something that is not a card of the board dragged over the second column.\<close>

definition demo_external_drag :: KanbanState where
  "demo_external_drag =
     \<lparr>kctx = demo_context\<lparr>dropTargetColumnId := Some (js ''done'')\<rparr>, commandSeqId = 0\<rparr>"

text \<open>The new-card modal open on a column that is gone, and an edit of a card that is gone.\<close>

definition demo_gone :: KanbanState where
  "demo_gone =
     \<lparr>kctx = demo_context\<lparr>newCardModalOpen := True, newCardColumnId := Some (js ''gone''),
                            newCardTitle := js ''  New '', editingCardId := Some (js ''zz''),
                            editTitle := js ''Title''\<rparr>,
      commandSeqId = 3\<rparr>"

text \<open>
  A new-card title and an edit title made of white space beyond ASCII only: no-break
  space and em space, ideographic space and byte order mark.
\<close>

definition demo_nbsp :: KanbanState where
  "demo_nbsp =
     \<lparr>kctx = demo_context\<lparr>newCardModalOpen := True, newCardColumnId := Some (js ''todo''),
                            newCardTitle := [0xA0, 0x2003], editingCardId := Some (js ''a''),
                            editTitle := [0x3000, 0xFEFF]\<rparr>,
      commandSeqId = 3\<rparr>"

definition demo_search :: LiveSearchContext where
  "demo_search =
     \<lparr>query = [], results = [], isLoading = False, selectedIndex = - 1, isOpen = False,
      recentSearches = [], pendingSearchId = Some 0\<rparr>"

definition demo_hit :: SearchResult where
  "demo_hit =
     \<lparr>sr_id = 1, sr_title = js ''React Hooks'',
      sr_description = js ''useState, useEffect, useContext'', sr_category = js ''frontend''\<rparr>"


section \<open>The history log\<close>

lemma js_eq_iff [simp]: "js s = js t \<longleftrightarrow> s = t"
  by (simp add: js_def inj_map_eq_map inj_of_char)

lemma js_Nil_iff [simp]: "js s = [] \<longleftrightarrow> s = []"
  by (simp add: js_def)

lemma findIndex_Some:
  "findIndex p xs = Some i \<Longrightarrow> i < length xs \<and> p (xs ! i) \<and> (\<forall>j<i. \<not> p (xs ! j))"
proof (induction xs arbitrary: i)
  case Nil
  then show ?case by simp
next
  case (Cons x xs)
  show ?case
  proof (cases "p x")
    case True
    with Cons.prems show ?thesis by simp
  next
    case False
    with Cons.prems obtain k where k: "findIndex p xs = Some k" and i: "i = Suc k"
      by auto
    from Cons.IH [OF k] False show ?thesis
      unfolding i by (auto simp: less_Suc_eq_0_disj)
  qed
qed

lemma findIndex_None: "findIndex p xs = None \<longleftrightarrow> (\<forall>x\<in>set xs. \<not> p x)"
  by (induction xs) auto


lemma slice_last_snoc:
  "slice_last n (slice_last n xs @ [x]) = slice_last n (xs @ [x])"
proof (cases "n \<le> length xs")
  case True
  then have "Suc (length xs) - (length xs - n + n) + (length xs - n) = Suc (length xs) - n"
    by arith
  then show ?thesis by (simp add: slice_last_def)
next
  case False
  then show ?thesis by (simp add: slice_last_def)
qed

lemma pushCommand_history:
  "- 1 \<le> historyIndex c \<Longrightarrow>
   history (pushCommand c cmd) =
     slice_last MAX_HISTORY_SIZE (take (nat (historyIndex c + 1)) (history c) @ [cmd])"
  by (auto simp: pushCommand_def Let_def slice_last_def slice_to_def MAX_HISTORY_SIZE_def)

lemma pushCommand_index:
  "- 1 \<le> historyIndex c \<Longrightarrow>
   historyIndex (pushCommand c cmd) = int (length (history (pushCommand c cmd))) - 1"
  by (auto simp: pushCommand_def Let_def slice_last_def slice_to_def MAX_HISTORY_SIZE_def)

lemma pushCommand_last: "last (history (pushCommand c cmd)) = cmd"
  by (auto simp: pushCommand_def Let_def slice_last_def MAX_HISTORY_SIZE_def)

lemma pushCommand_length: "length (history (pushCommand c cmd)) \<le> MAX_HISTORY_SIZE"
  by (auto simp: pushCommand_def Let_def slice_last_def MAX_HISTORY_SIZE_def)

lemma pushCommand_frame:
  "pushCommand c cmd =
     c\<lparr>history := history (pushCommand c cmd), historyIndex := historyIndex (pushCommand c cmd)\<rparr>"
  by (auto simp: pushCommand_def Let_def)

lemma pushCommand_many:
  "- 1 \<le> historyIndex c \<Longrightarrow> cmds \<noteq> [] \<Longrightarrow>
   history (foldl pushCommand c cmds) =
     slice_last MAX_HISTORY_SIZE (take (nat (historyIndex c + 1)) (history c) @ cmds) \<and>
   historyIndex (foldl pushCommand c cmds) = int (length (history (foldl pushCommand c cmds))) - 1"
proof (induction cmds rule: rev_induct)
  case Nil
  then show ?case by simp
next
  case (snoc x xs)
  show ?case
  proof (cases "xs = []")
    case True
    with snoc.prems show ?thesis
      by (simp add: pushCommand_history pushCommand_index)
  next
    case False
    let ?c = "foldl pushCommand c xs"
    from snoc.IH [OF snoc.prems(1) False]
    have h: "history ?c =
        slice_last MAX_HISTORY_SIZE (take (nat (historyIndex c + 1)) (history c) @ xs)"
      and i: "historyIndex ?c = int (length (history ?c)) - 1"
      by simp_all
    from i have ge: "- 1 \<le> historyIndex ?c" by simp
    have "history (pushCommand ?c x) = slice_last MAX_HISTORY_SIZE (history ?c @ [x])"
      using pushCommand_history [OF ge, of x] i by simp
    also have "\<dots> =
        slice_last MAX_HISTORY_SIZE ((take (nat (historyIndex c + 1)) (history c) @ xs) @ [x])"
      unfolding h by (rule slice_last_snoc)
    finally show ?thesis
      using pushCommand_index [OF ge, of x] by simp
  qed
qed

text \<open>
  Claim C3. After \<open>pushCommand\<close> on a context whose index is at least \<open>-1\<close> (its value
  before any command): the log is the entries up to the old index followed by the new
  command, cut to its newest 50 entries; so the entries beyond the old index are gone,
  the new command is last, the length is at most 50, and the index is the last position.
  Pushing a list of at least 50 commands leaves exactly the newest 50 of them.
\<close>

theorem pushCommand_log_bounded:
  assumes "- 1 \<le> historyIndex c"
  shows "MAX_HISTORY_SIZE = 50 \<and>
     history (pushCommand c cmd) =
       drop (length (take (nat (historyIndex c + 1)) (history c) @ [cmd]) - 50)
         (take (nat (historyIndex c + 1)) (history c) @ [cmd]) \<and>
     last (history (pushCommand c cmd)) = cmd \<and>
     length (history (pushCommand c cmd)) \<le> 50 \<and>
     historyIndex (pushCommand c cmd) = int (length (history (pushCommand c cmd))) - 1 \<and>
     (50 \<le> length cmds \<longrightarrow>
        history (foldl pushCommand c cmds) = drop (length cmds - 50) cmds)"
proof -
  have a: "history (pushCommand c cmd) =
       drop (length (take (nat (historyIndex c + 1)) (history c) @ [cmd]) - 50)
         (take (nat (historyIndex c + 1)) (history c) @ [cmd])"
    using pushCommand_history [OF assms, of cmd]
    by (simp only: slice_last_def MAX_HISTORY_SIZE_def)
  have b: "length (history (pushCommand c cmd)) \<le> 50"
    using pushCommand_length [of c cmd] by (simp add: MAX_HISTORY_SIZE_def)
  have d: "50 \<le> length cmds \<longrightarrow>
      history (foldl pushCommand c cmds) = drop (length cmds - 50) cmds"
  proof
    assume l: "50 \<le> length cmds"
    then have "cmds \<noteq> []" by auto
    from pushCommand_many [OF assms this] l
    show "history (foldl pushCommand c cmds) = drop (length cmds - 50) cmds"
      by (simp add: slice_last_def MAX_HISTORY_SIZE_def)
  qed
  from a b d pushCommand_last [of c cmd] pushCommand_index [OF assms, of cmd]
    MAX_HISTORY_SIZE_def
  show ?thesis by blast
qed

theorem pushCommand_log_bounded_witness:
  "- 1 \<le> historyIndex demo_context \<and>
   history (pushCommand demo_context (demo_create 7)) = [demo_create 7] \<and>
   historyIndex (pushCommand demo_context (demo_create 7)) = 0 \<and>
   history (foldl pushCommand demo_context (map demo_create [0..<52])) =
     map demo_create [2..<52]"
proof -
  have h: "- 1 \<le> historyIndex demo_context" by (simp add: demo_context_def)
  have e: "take (nat (historyIndex demo_context + 1)) (history demo_context) = []"
    by (simp add: demo_context_def)
  from pushCommand_log_bounded [OF h, of "demo_create 7" "map demo_create [0..<52]"]
  have one: "history (pushCommand demo_context (demo_create 7)) = [demo_create 7]"
    and i: "historyIndex (pushCommand demo_context (demo_create 7)) =
        int (length (history (pushCommand demo_context (demo_create 7)))) - 1"
    and m: "history (foldl pushCommand demo_context (map demo_create [0..<52])) =
        drop 2 (map demo_create [0..<52])"
    unfolding e by simp_all
  have "drop 2 (map demo_create [0..<52]) = map demo_create [2..<52]"
    by (simp only: drop_map drop_upt add_0)
  with h one i m show ?thesis by simp
qed

text \<open>
  Claim C5. \<open>performUndo\<close> at index \<open>-1\<close> and \<open>performRedo\<close> at the last position of the
  log return the context unchanged and raise nothing. At an index inside the log undo
  reverses the command at the index and decrements the index; before the last position
  redo increments the index and executes the command at the new index.
\<close>

theorem undo_redo_steps:
  "(historyIndex c = - 1 \<longrightarrow> performUndo c = Inr c) \<and>
   (historyIndex c = int (length (history c)) - 1 \<longrightarrow> performRedo c = Inr c) \<and>
   (0 \<le> historyIndex c \<and> historyIndex c < int (length (history c)) \<longrightarrow>
      performUndo c =
        Inr (c\<lparr>columns := reverseCommand (columns c) (history c ! nat (historyIndex c)),
               historyIndex := historyIndex c - 1\<rparr>)) \<and>
   (- 1 \<le> historyIndex c \<and> historyIndex c < int (length (history c)) - 1 \<longrightarrow>
      performRedo c =
        Inr (c\<lparr>historyIndex := historyIndex c + 1,
               columns := executeCommand (columns c) (history c ! nat (historyIndex c + 1))\<rparr>))"
  by (auto simp: performUndo_def performRedo_def at_index_def)

theorem undo_redo_steps_witness:
  "historyIndex demo_context = - 1 \<and>
   historyIndex demo_context = int (length (history demo_context)) - 1 \<and>
   performUndo demo_context = Inr demo_context \<and>
   performRedo demo_context = Inr demo_context \<and>
   performRedo (demo_context\<lparr>history := [demo_create 1], historyIndex := 0\<rparr>) =
     Inr (demo_context\<lparr>history := [demo_create 1], historyIndex := 0\<rparr>) \<and>
   performUndo (demo_context\<lparr>history := [demo_create 1], historyIndex := 0\<rparr>) =
     Inr (demo_context\<lparr>history := [demo_create 1], historyIndex := - 1,
            columns := reverseCommand demo_columns (demo_create 1)\<rparr>) \<and>
   performRedo (demo_context\<lparr>history := [demo_create 1]\<rparr>) =
     Inr (demo_context\<lparr>history := [demo_create 1], historyIndex := 0,
            columns := executeCommand demo_columns (demo_create 1)\<rparr>)"
  using undo_redo_steps [of demo_context]
    undo_redo_steps [of "demo_context\<lparr>history := [demo_create 1], historyIndex := 0\<rparr>"]
    undo_redo_steps [of "demo_context\<lparr>history := [demo_create 1]\<rparr>"]
  by (simp add: demo_context_def)


section \<open>The todo list scenario\<close>

text \<open>
  Claim C8. From an empty todo list (with any pending input text and any next id),
  typing and adding "Buy milk", typing and adding "Walk dog", then toggling the first
  entry ("Buy milk") gives the texts "Buy milk", "Walk dog" in this order, the first
  entry completed, and one remaining item.
\<close>

theorem todo_scenario:
  "(let c0 = \<lparr>todos = [], newTodoText = t0, nextId = n\<rparr>;
        c1 = addTodo (updateNewTodoText (js ''Buy milk'') c0);
        c2 = addTodo (updateNewTodoText (js ''Walk dog'') c1);
        c3 = toggleTodo (Some 0) c2
    in map todo_text (todos c3) = [js ''Buy milk'', js ''Walk dog''] \<and>
       map completed (todos c3) = [True, False] \<and>
       remainingItems c3 = 1)"
  by (simp add: addTodo_def addTodoItem_def updateNewTodoText_def toggleTodo_def
      remainingItems_def trim_def isSpace_def js_def Let_def)


section \<open>Time travel\<close>

lemma at_index_nth: "0 \<le> i \<Longrightarrow> i < int (length xs) \<Longrightarrow> at_index xs i = Some (xs ! nat i)"
  by (simp add: at_index_def)

lemma exec_loop_foldl:
  "0 \<le> i \<Longrightarrow> t < int (length h) \<Longrightarrow>
   exec_loop h i t cols =
     Inr (foldl executeCommand cols (map ((!) h) [nat i ..< nat (t + 1)]))"
proof (induction h i t cols rule: exec_loop.induct)
  case (1 h i t cols)
  show ?case
  proof (cases "i \<le> t")
    case True
    with "1.prems" have a: "at_index h i = Some (h ! nat i)"
      by (simp add: at_index_nth)
    from True "1.prems" have lt: "nat i < nat (t + 1)" by linarith
    from "1.prems" have s: "nat (i + 1) = Suc (nat i)" by linarith
    have u: "[nat i ..< nat (t + 1)] = nat i # [nat (i + 1) ..< nat (t + 1)]"
      by (simp only: s upt_conv_Cons [OF lt])
    from "1.IH" [OF True a] "1.prems" 
    have "exec_loop h (i + 1) t (executeCommand cols (h ! nat i)) =
        Inr (foldl executeCommand (executeCommand cols (h ! nat i)) (map ((!) h) [nat (i + 1) ..< nat (t + 1)]))"
      by simp
    then show ?thesis
      using True a by (subst exec_loop.simps) (simp add: u)
  next
    case False
    then show ?thesis
      by (subst exec_loop.simps) simp
  qed
qed

lemma reverse_loop_foldl:
  "- 1 \<le> t \<Longrightarrow> i < int (length h) \<Longrightarrow>
   reverse_loop h i t cols =
     Inr (foldl reverseCommand cols (map ((!) h) (rev [nat (t + 1) ..< nat (i + 1)])))"
proof (induction h i t cols rule: reverse_loop.induct)
  case (1 h i t cols)
  show ?case
  proof (cases "i > t")
    case True
    with "1.prems" have a: "at_index h i = Some (h ! nat i)"
      by (simp add: at_index_nth)
    from True "1.prems" have u: "[nat (t + 1) ..< nat (i + 1)] = [nat (t + 1) ..< nat (i - 1 + 1)] @ [nat i]"
      by (simp add: nat_add_distrib)
    from "1.IH" [OF True a] "1.prems" 
    have "reverse_loop h (i - 1) t (reverseCommand cols (h ! nat i)) =
        Inr (foldl reverseCommand (reverseCommand cols (h ! nat i)) (map ((!) h) (rev [nat (t + 1) ..< nat (i - 1 + 1)])))"
      by simp
    then show ?thesis
      using True a by (subst reverse_loop.simps) (simp add: u del: upt_Suc)
  next
    case False
    then show ?thesis
      by (subst reverse_loop.simps) simp
  qed
qed

lemma resetToInitial_foldl:
  "historyIndex c < int (length (history c)) \<Longrightarrow>
   resetToInitial c =
     Inr (c\<lparr>columns := foldl reverseCommand (columns c) (map ((!) (history c)) (rev [0 ..< nat (historyIndex c + 1)])),
            historyIndex := min (historyIndex c) (- 1)\<rparr>)"
proof (induction c rule: resetToInitial.induct)
  case (1 c)
  show ?case
  proof (cases "historyIndex c \<ge> 0")
    case True
    with "1.prems" have a: "at_index (history c) (historyIndex c) = Some (history c ! nat (historyIndex c))"
      by (simp add: at_index_nth)
    from True have u: "[0 ..< nat (historyIndex c + 1)] = [0 ..< nat (historyIndex c - 1 + 1)] @ [nat (historyIndex c)]"
      by (simp add: nat_add_distrib)
    from "1.IH" [OF True a] "1.prems" True
    show ?thesis
      using a by (subst resetToInitial.simps) (simp add: u del: upt_Suc)
  next
    case False
    then show ?thesis
      by (subst resetToInitial.simps) (simp add: min_def)
  qed
qed

lemma jumpToRevision_eq:
  assumes "- 1 \<le> historyIndex c" and "historyIndex c < int (length (history c))"
    and "findIndex (\<lambda>x. seqId (base x) = seqId (base command)) (history c) = Some targetIndex"
  shows "jumpToRevision (Some command) c =
     Inr (c\<lparr>columns :=
              (if int targetIndex > historyIndex c
               then foldl executeCommand (columns c)
                      (map ((!) (history c)) [nat (historyIndex c + 1) ..< targetIndex + 1])
               else foldl reverseCommand (columns c)
                      (map ((!) (history c)) (rev [targetIndex + 1 ..< nat (historyIndex c + 1)]))),
            historyIndex := int targetIndex\<rparr>)"
proof -
  let ?i = "historyIndex c" and ?t = "int targetIndex"
  have t: "?t < int (length (history c))"
    using findIndex_Some [OF assms(3)] by simp
  show ?thesis
  proof (cases "?t > ?i")
    case True
    from assms(1) have "0 \<le> ?i + 1" by simp
    from exec_loop_foldl [OF this t, of "columns c"] True assms(3)
    show ?thesis
      by (simp add: jumpToRevision_def Let_def nat_add_distrib)
  next
    case False
    have "- 1 \<le> ?t" by simp
    from reverse_loop_foldl [OF this assms(2), of "columns c"] False assms(3)
    show ?thesis
      by (cases "?t < ?i") (simp_all add: jumpToRevision_def Let_def nat_add_distrib)
  qed
qed

text \<open>
  Claim C6. \<open>jumpToRevision\<close> on the entry whose sequence id is first found at position
  \<open>targetIndex\<close> of the log: when the target is after the current index, the commands at
  positions \<open>historyIndex + 1 .. targetIndex\<close> are executed in ascending order; when it
  is before, the commands at positions \<open>historyIndex .. targetIndex + 1\<close> are reversed in
  descending order; nothing else changes, and the index ends at the target.
\<close>

theorem jumpToRevision_replays_range:
  assumes "- 1 \<le> historyIndex c" and "historyIndex c < int (length (history c))"
    and "findIndex (\<lambda>x. seqId (base x) = seqId (base command)) (history c) = Some targetIndex"
  shows "jumpToRevision (Some command) c =
     Inr (c\<lparr>columns :=
              (if int targetIndex > historyIndex c
               then foldl executeCommand (columns c)
                      (map ((!) (history c)) [nat (historyIndex c + 1) ..< targetIndex + 1])
               else foldl reverseCommand (columns c)
                      (map ((!) (history c)) (rev [targetIndex + 1 ..< nat (historyIndex c + 1)]))),
            historyIndex := int targetIndex\<rparr>)"
  using assms by (rule jumpToRevision_eq)

theorem jumpToRevision_replays_range_witness:
  "- 1 \<le> historyIndex demo_log \<and> historyIndex demo_log < int (length (history demo_log)) \<and>
   jumpToRevision (Some (demo_create 3)) demo_log =
     Inr (demo_log\<lparr>columns := executeCommand (executeCommand demo_columns (demo_create 2)) (demo_create 3),
                     historyIndex := 2\<rparr>) \<and>
   jumpToRevision (Some (demo_create 1)) (demo_log\<lparr>historyIndex := 2\<rparr>) =
     Inr (demo_log\<lparr>columns := reverseCommand (reverseCommand demo_columns (demo_create 3)) (demo_create 2),
                     historyIndex := 0\<rparr>)"
proof -
  have f: "findIndex (\<lambda>x. seqId (base x) = seqId (base (demo_create 3))) (history demo_log) = Some 2"
    "findIndex (\<lambda>x. seqId (base x) = seqId (base (demo_create 1))) (history (demo_log\<lparr>historyIndex := 2\<rparr>)) = Some 0"
    by (simp_all add: demo_log_def demo_create_def)
  have n: "[nat (historyIndex demo_log + 1) ..< 2 + 1] = [1, 2]"
     "rev [0 + 1 ..< nat (historyIndex (demo_log\<lparr>historyIndex := 2\<rparr>) + 1)] = [2, 1]"
    by (simp_all add: demo_log_def upt_conv_Cons)
  have h: "- 1 \<le> historyIndex demo_log" "historyIndex demo_log < int (length (history demo_log))"
     "- 1 \<le> historyIndex (demo_log\<lparr>historyIndex := 2\<rparr>)" 
     "historyIndex (demo_log\<lparr>historyIndex := 2\<rparr>) < int (length (history (demo_log\<lparr>historyIndex := 2\<rparr>)))"
    by (simp_all add: demo_log_def)
  from jumpToRevision_replays_range [OF h(1) h(2) f(1)] jumpToRevision_replays_range [OF h(3) h(4) f(2)] h(1) h(2)
  show ?thesis
    unfolding n by (simp add: demo_log_def demo_context_def)
qed


section \<open>The history invariant\<close>

lemma jumpToRevision_inv:
  assumes "history_inv c"
  shows "\<exists>c'. jumpToRevision item c = Inr c' \<and> history_inv c'"
proof (cases item)
  case None
  with assms show ?thesis by (simp add: jumpToRevision_def)
next
  case (Some command)
  show ?thesis
  proof (cases "findIndex (\<lambda>x. seqId (base x) = seqId (base command)) (history c)")
    case None
    with Some assms show ?thesis by (simp add: jumpToRevision_def)
  next
    case (Some t)
    from findIndex_Some [OF Some] have t: "t < length (history c)" by simp
    from assms have h: "- 1 \<le> historyIndex c" "historyIndex c < int (length (history c))"
      by (simp_all add: history_inv_def)
    from jumpToRevision_eq [OF h Some] \<open>item = Some command\<close> t assms show ?thesis
      by (simp add: history_inv_def)
  qed
qed

text \<open>
  Claim C9. \<open>pushCommand\<close>, \<open>performUndo\<close>, \<open>performRedo\<close>, \<open>jumpToRevision\<close> and
  \<open>resetToInitial\<close> all return (none raises) from a context that satisfies
  \<open>-1 \<le> historyIndex \<le> history.length - 1\<close> and \<open>history.length \<le> 50\<close>, and the
  context they leave satisfies it again.
\<close>

theorem history_inv_preserved:
  assumes "history_inv c"
  shows "history_inv (pushCommand c cmd) \<and>
     (\<exists>c'. performUndo c = Inr c' \<and> history_inv c') \<and>
     (\<exists>c'. performRedo c = Inr c' \<and> history_inv c') \<and>
     (\<exists>c'. jumpToRevision item c = Inr c' \<and> history_inv c') \<and>
     (\<exists>c'. resetToInitial c = Inr c' \<and> history_inv c')"
proof -
  from assms have h: "- 1 \<le> historyIndex c" "historyIndex c < int (length (history c))"
    by (simp_all add: history_inv_def)
  have p: "history_inv (pushCommand c cmd)"
    using pushCommand_index [OF h(1), of cmd] pushCommand_length [of c cmd]
    by (simp add: history_inv_def)
  have u: "\<exists>c'. performUndo c = Inr c' \<and> history_inv c'"
    using assms by (auto simp: performUndo_def history_inv_def at_index_def)
  have r: "\<exists>c'. performRedo c = Inr c' \<and> history_inv c'"
    using assms by (auto simp: performRedo_def history_inv_def at_index_def)
  have z: "\<exists>c'. resetToInitial c = Inr c' \<and> history_inv c'"
    using resetToInitial_foldl [OF h(2)] assms by (simp add: history_inv_def)
  from p u r z jumpToRevision_inv [OF assms] show ?thesis by blast
qed

theorem history_inv_preserved_witness:
  "history_inv demo_log \<and>
   history_inv (pushCommand demo_log (demo_create 4)) \<and>
   (\<exists>c'. performUndo demo_log = Inr c' \<and> history_inv c') \<and>
   (\<exists>c'. performRedo demo_log = Inr c' \<and> history_inv c') \<and>
   (\<exists>c'. jumpToRevision (Some (demo_create 3)) demo_log = Inr c' \<and> history_inv c') \<and>
   (\<exists>c'. resetToInitial demo_log = Inr c' \<and> history_inv c')"
proof -
  have "history_inv demo_log"
    by (simp add: history_inv_def demo_log_def MAX_HISTORY_SIZE_def)
  from this history_inv_preserved [OF this] show ?thesis by blast
qed



section \<open>Round trips of commands\<close>

subsection \<open>Searching and splicing\<close>

lemma findIndex_first:
  "\<forall>y\<in>set ys. \<not> p y \<Longrightarrow> p x \<Longrightarrow> findIndex p (ys @ x # zs) = Some (length ys)"
  by (induction ys) auto

lemma findIndex_map: "findIndex p (map f xs) = findIndex (\<lambda>x. p (f x)) xs"
  by (induction xs) auto

lemma findIndex_cong_map:
  "map f xs = map f ys \<Longrightarrow> findIndex (\<lambda>x. p (f x)) xs = findIndex (\<lambda>x. p (f x)) ys"
  by (metis findIndex_map)

lemma splice_pos_le: "splice_pos i xs \<le> length xs"
  by (auto simp: splice_pos_def)

lemma splice_del_ins: "splice_del (splice_pos i xs) (splice_ins i x xs) = xs"
  using splice_pos_le [of i xs] by (simp add: splice_del_def splice_ins_def)

lemma splice_ins_nth: "splice_ins i x xs ! splice_pos i xs = x"
  using splice_pos_le [of i xs] by (simp add: splice_ins_def nth_append)

lemma splice_ins_del: "k < length xs \<Longrightarrow> splice_ins (int k) (xs ! k) (splice_del k xs) = xs"
proof -
  assume k: "k < length xs"
  then have p: "splice_pos (int k) (splice_del k xs) = k"
    by (auto simp: splice_pos_def splice_del_def)
  from k have "take k (splice_del k xs) = take k xs" "drop k (splice_del k xs) = drop (Suc k) xs"
    by (simp_all add: splice_del_def)
  with k show ?thesis
    by (simp add: splice_ins_def p id_take_nth_drop [symmetric])
qed

lemma findIndex_splice_ins:
  "\<forall>y\<in>set xs. \<not> p y \<Longrightarrow> p x \<Longrightarrow> findIndex p (splice_ins i x xs) = Some (splice_pos i xs)"
  unfolding splice_ins_def
  using splice_pos_le [of i xs]
  by (subst findIndex_first) (auto dest: in_set_takeD)

lemma distinct_splice_del:
  assumes "distinct (map f xs)" and "k < length xs" and "y \<in> set (splice_del k xs)"
  shows "f y \<noteq> f (xs ! k)"
proof -
  from assms(2) have "xs = take k xs @ xs ! k # drop (Suc k) xs"
    by (rule id_take_nth_drop)
  then have "distinct (map f (take k xs) @ f (xs ! k) # map f (drop (Suc k) xs))"
    using assms(1) by (metis list.simps(9) map_append)
  then have "f (xs ! k) \<notin> f ` set (take k xs)" "f (xs ! k) \<notin> f ` set (drop (Suc k) xs)"
    by auto
  moreover from assms(3) have "y \<in> set (take k xs) \<or> y \<in> set (drop (Suc k) xs)"
    by (simp add: splice_del_def)
  ultimately show ?thesis
    by (metis imageI)
qed

subsection \<open>Changing one column\<close>

lemma length_upd_cards [simp]: "length (upd_cards ci f cols) = length cols"
  by (simp add: upd_cards_def)

lemma upd_cards_nth_same:
  "ci < length cols \<Longrightarrow> col_cards (upd_cards ci f cols ! ci) = f (col_cards (cols ! ci))"
  by (simp add: upd_cards_def)

lemma upd_cards_nth_other: "j \<noteq> ci \<Longrightarrow> upd_cards ci f cols ! j = cols ! j"
  by (simp add: upd_cards_def)

lemma upd_cards_col_ids: "map col_id (upd_cards ci f cols) = map col_id cols"
  by (cases "ci < length cols")
    (simp_all add: upd_cards_def map_update list_update_same_conv list_update_beyond)

lemma findColumn_upd_cards: "findColumn (upd_cards ci f cols) i = findColumn cols i"
  unfolding findColumn_def
  using findIndex_cong_map [OF upd_cards_col_ids, of "\<lambda>x. x = i"] by simp

lemma upd_cards_twice: "upd_cards ci g (upd_cards ci f cols) = upd_cards ci (\<lambda>cs. g (f cs)) cols"
  by (cases "ci < length cols") (simp_all add: upd_cards_def list_update_beyond)

lemma upd_cards_id: "f (col_cards (cols ! ci)) = col_cards (cols ! ci) \<Longrightarrow> upd_cards ci f cols = cols"
  by (simp add: upd_cards_def)

lemma findColumn_less: "findColumn cols i = Some ci \<Longrightarrow> ci < length cols"
  unfolding findColumn_def by (drule findIndex_Some) simp

subsection \<open>Locating a card\<close>

lemma findCardLocation_Some_iff:
  "findCardLocation cols cid = Some (j, i) \<longleftrightarrow>
     j < length cols \<and> findIndex (\<lambda>k. card_id k = cid) (col_cards (cols ! j)) = Some i \<and>
     (\<forall>j'<j. findIndex (\<lambda>k. card_id k = cid) (col_cards (cols ! j')) = None)"
proof (induction cols arbitrary: j)
  case Nil
  then show ?case by simp
next
  case (Cons c cs)
  show ?case
  proof (cases "findIndex (\<lambda>k. card_id k = cid) (col_cards c)")
    case (Some a)
    then show ?thesis
      by (cases j) auto
  next
    case None
    show ?thesis
    proof (cases j)
      case 0
      with None show ?thesis by simp
    next
      case (Suc m)
      have "(\<forall>j'<Suc m. findIndex (\<lambda>k. card_id k = cid) (col_cards ((c # cs) ! j')) = None) \<longleftrightarrow>
            (\<forall>j'<m. findIndex (\<lambda>k. card_id k = cid) (col_cards (cs ! j')) = None)"
        using None by (auto simp: less_Suc_eq_0_disj)
      with None Suc Cons.IH [of m] show ?thesis
        by auto
    qed
  qed
qed

lemma findCardLocation_ids:
  "map (\<lambda>c. map card_id (col_cards c)) cols' = map (\<lambda>c. map card_id (col_cards c)) cols \<Longrightarrow>
   findCardLocation cols' cid = findCardLocation cols cid"
proof (induction cols arbitrary: cols')
  case Nil
  then show ?case by simp
next
  case (Cons c cs)
  then obtain c' cs' where e: "cols' = c' # cs'" 
    and h: "map card_id (col_cards c') = map card_id (col_cards c)"
    and t: "map (\<lambda>c. map card_id (col_cards c)) cs' = map (\<lambda>c. map card_id (col_cards c)) cs"
    by (cases cols') auto
  from findIndex_cong_map [OF h, of "\<lambda>x. x = cid"] Cons.IH [OF t] show ?case
    unfolding e by (simp split: option.splits)
qed

subsection \<open>Boards with pairwise distinct card ids\<close>

lemma all_card_ids_split:
  "j < length cols \<Longrightarrow>
   all_card_ids cols =
     all_card_ids (take j cols) @ map card_id (col_cards (cols ! j)) @ all_card_ids (drop (Suc j) cols)"
  unfolding all_card_ids_def
  by (subst id_take_nth_drop [of j cols]) simp_all

lemma ids_in_all: "j < length cols \<Longrightarrow> x \<in> set (col_cards (cols ! j)) \<Longrightarrow> card_id x \<in> set (all_card_ids cols)"
  by (auto simp: all_card_ids_def intro!: bexI [of _ "cols ! j"])

lemma distinct_column:
  "distinct (all_card_ids cols) \<Longrightarrow> j < length cols \<Longrightarrow> distinct (map card_id (col_cards (cols ! j)))"
  by (simp add: all_card_ids_split)

lemma distinct_columns_lt:
  assumes "distinct (all_card_ids cols)" and "j < j'" and "j' < length cols"
    and "x \<in> set (col_cards (cols ! j))" and "y \<in> set (col_cards (cols ! j'))"
  shows "card_id x \<noteq> card_id y"
proof -
  from assms(2,3) have j: "j < length cols" by simp
  have "drop (Suc j) cols ! (j' - Suc j) = cols ! j'"
    using assms(2,3) by simp
  moreover have "j' - Suc j < length (drop (Suc j) cols)"
    using assms(2,3) by simp
  ultimately have "card_id y \<in> set (all_card_ids (drop (Suc j) cols))"
    using ids_in_all assms(5) by metis
  with assms(1,4) show ?thesis
    unfolding all_card_ids_split [OF j] by auto
qed

lemma distinct_columns:
  assumes "distinct (all_card_ids cols)" and "j \<noteq> j'" and "j < length cols" and "j' < length cols"
    and "x \<in> set (col_cards (cols ! j))" and "y \<in> set (col_cards (cols ! j'))"
  shows "card_id x \<noteq> card_id y"
proof (cases "j < j'")
  case True
  from distinct_columns_lt [OF assms(1) True assms(4,5,6)] show ?thesis .
next
  case False
  with assms(2) have "j' < j" by simp
  from distinct_columns_lt [OF assms(1) this assms(3,6,5)] show ?thesis by simp
qed


subsection \<open>Execute, then reverse\<close>

lemma findCardLocation_valid:
  assumes "findCardLocation cols cid = Some (ci, k)"
  shows "ci < length cols" and "k < length (col_cards (cols ! ci))"
    and "card_id (card_at cols ci k) = cid"
  using assms findIndex_Some [of "\<lambda>k. card_id k = cid" "col_cards (cols ! ci)" k]
  by (simp_all add: findCardLocation_Some_iff card_at_def)

lemma removed_id_absent:
  assumes d: "distinct (all_card_ids cols)"
    and l: "findCardLocation cols cid = Some (ci, k)"
    and j: "j < length cols"
    and y: "y \<in> set (col_cards (upd_cards ci (splice_del k) cols ! j))"
  shows "card_id y \<noteq> cid"
proof (cases "j = ci")
  case True
  from findCardLocation_valid [OF l] have v: "ci < length cols" "k < length (col_cards (cols ! ci))"
    "card_id (col_cards (cols ! ci) ! k) = cid"
    by (simp_all add: card_at_def)
  from y True v(1) have "y \<in> set (splice_del k (col_cards (cols ! ci)))"
    by (simp add: upd_cards_nth_same)
  from distinct_splice_del [OF distinct_column [OF d v(1)] v(2) this] v(3)
  show ?thesis by simp
next
  case False
  from findCardLocation_valid [OF l] have v: "ci < length cols" "k < length (col_cards (cols ! ci))"
    "card_id (col_cards (cols ! ci) ! k) = cid"
    by (simp_all add: card_at_def)
  from y False have "y \<in> set (col_cards (cols ! j))"
    by (simp add: upd_cards_nth_other)
  moreover from v(2) have "col_cards (cols ! ci) ! k \<in> set (col_cards (cols ! ci))"
    by simp
  ultimately show ?thesis
    using distinct_columns [OF d False j v(1)] v(3) by metis
qed

lemma findCardLocation_inserted:
  assumes n: "\<forall>j<length cols. \<forall>y\<in>set (col_cards (cols ! j)). card_id y \<noteq> cid"
    and t: "tj < length cols" and c: "card_id crd = cid"
  shows "findCardLocation (upd_cards tj (splice_ins i crd) cols) cid =
     Some (tj, splice_pos i (col_cards (cols ! tj)))"
proof -
  have a: "findIndex (\<lambda>k. card_id k = cid) (col_cards (upd_cards tj (splice_ins i crd) cols ! tj)) =
      Some (splice_pos i (col_cards (cols ! tj)))"
    using n t c by (simp add: upd_cards_nth_same findIndex_splice_ins)
  have b: "findIndex (\<lambda>k. card_id k = cid) (col_cards (upd_cards tj (splice_ins i crd) cols ! j')) = None"
    if "j' < tj" for j'
  proof -
    from that t have "j' < length cols" by simp
    with n have "\<forall>y\<in>set (col_cards (cols ! j')). card_id y \<noteq> cid" by blast
    with that show ?thesis
      by (simp add: upd_cards_nth_other findIndex_None)
  qed
  from a b t show ?thesis
    by (simp add: findCardLocation_Some_iff)
qed

lemma move_round_trip:
  assumes d: "distinct (all_card_ids cols)"
    and l: "findCardLocation cols cardId = Some (ci, k)"
    and s: "findColumn cols (columnId src) = Some ci" and i: "index src = int k"
    and t: "findColumn cols (columnId dst) = Some tj"
  shows "reverseCommand (executeCommand cols (Move b cardId cardTitle src dst))
           (Move b cardId cardTitle src dst) = cols"
proof -
  let ?crd = "card_at cols ci k"
  let ?cols1 = "upd_cards ci (splice_del k) cols"
  let ?cols2 = "upd_cards tj (splice_ins (index dst) ?crd) ?cols1"
  let ?p = "splice_pos (index dst) (col_cards (?cols1 ! tj))"
  note v = findCardLocation_valid [OF l]
  from t have tj: "tj < length cols" by (rule findColumn_less)
  have e: "executeCommand cols (Move b cardId cardTitle src dst) = ?cols2"
    using l t by (simp add: findColumn_upd_cards)
  have n: "\<forall>j<length ?cols1. \<forall>y\<in>set (col_cards (?cols1 ! j)). card_id y \<noteq> cardId"
    using removed_id_absent [OF d l] by simp
  have f: "findCardLocation ?cols2 cardId = Some (tj, ?p)"
    using findCardLocation_inserted [OF n _ v(3), of tj "index dst"] tj by simp
  have c: "card_at ?cols2 tj ?p = ?crd"
    using tj by (simp add: card_at_def upd_cards_nth_same splice_ins_nth)
  have r1: "upd_cards tj (splice_del ?p) ?cols2 = ?cols1"
    by (simp add: upd_cards_twice splice_del_ins upd_cards_id)
  have r2: "upd_cards ci (splice_ins (int k) ?crd) ?cols1 = cols"
    using v(2) by (simp add: upd_cards_twice card_at_def splice_ins_del upd_cards_id)
  show ?thesis
    unfolding e using f c r1 r2 s i by (simp add: findColumn_upd_cards)
qed

lemma create_round_trip:
  assumes "card_id crd \<notin> set (all_card_ids cols)"
  shows "reverseCommand (executeCommand cols (Create b crd colId)) (Create b crd colId) = cols"
proof (cases "findColumn cols colId")
  case None
  then show ?thesis by simp
next
  case (Some ci)
  then have ci: "ci < length cols" by (rule findColumn_less)
  with assms have "\<forall>y\<in>set (col_cards (cols ! ci)). card_id y \<noteq> card_id crd"
    using ids_in_all by metis
  then have "findIndex (\<lambda>c. card_id c = card_id crd) (col_cards (cols ! ci) @ [crd]) =
      Some (length (col_cards (cols ! ci)))"
    by (simp add: findIndex_first)
  with Some ci show ?thesis
    by (simp add: findColumn_upd_cards upd_cards_nth_same upd_cards_twice splice_del_def upd_cards_id)
qed

lemma set_values_twice: "set_values v (set_values w c) = set_values v c"
  by (simp add: set_values_def)

lemma edit_round_trip:
  assumes l: "findCardLocation cols cardId = Some (ci, k)"
    and o: "ev_title oldValues = card_title (card_at cols ci k)"
      "ev_priority oldValues = card_priority (card_at cols ci k)"
      "or_undefined (ev_description oldValues) = card_description (card_at cols ci k)"
      "or_undefined (ev_assignee oldValues) = card_assignee (card_at cols ci k)"
  shows "reverseCommand (executeCommand cols (Edit b cardId oldValues newValues))
           (Edit b cardId oldValues newValues) = cols"
proof -
  let ?cols1 = "upd_cards ci (\<lambda>cs. cs[k := set_values newValues (cs ! k)]) cols"
  note v = findCardLocation_valid [OF l]
  have "map (\<lambda>c. map card_id (col_cards c)) ?cols1 = map (\<lambda>c. map card_id (col_cards c)) cols"
  proof -
    have "(map card_id (col_cards (cols ! ci)))[k := card_id (col_cards (cols ! ci) ! k)] =
        map card_id (col_cards (cols ! ci))"
      using v(2) by (simp add: list_update_same_conv)
    with v(1) show ?thesis
      by (simp add: upd_cards_def map_update set_values_def list_update_same_conv)
  qed
  from findCardLocation_ids [OF this, of cardId] l
  have f: "findCardLocation ?cols1 cardId = Some (ci, k)" by simp
  from o have "set_values oldValues (card_at cols ci k) = card_at cols ci k"
    by (simp add: set_values_def)
  then have "upd_cards ci (\<lambda>cs. cs[k := set_values oldValues (cs ! k)]) ?cols1 = cols"
    using v(2) by (simp add: upd_cards_twice set_values_twice card_at_def upd_cards_id)
  with l f show ?thesis by simp
qed

lemma delete_round_trip:
  assumes c: "findColumn cols colId = Some ci"
    and f: "findIndex (\<lambda>c. card_id c = card_id crd) (col_cards (cols ! ci)) = Some k"
    and e: "col_cards (cols ! ci) ! k = crd" and i: "idx = int k"
  shows "reverseCommand (executeCommand cols (Delete b crd colId idx)) (Delete b crd colId idx) = cols"
proof -
  from findIndex_Some [OF f] have "k < length (col_cards (cols ! ci))" by simp
  from splice_ins_del [OF this] e c f i show ?thesis
    by (simp add: findColumn_upd_cards upd_cards_twice upd_cards_id)
qed

text \<open>
  Claim C1, as amended. \<open>reverseCommand\<close> after \<open>executeCommand\<close> returns the document
  exactly, for a command that records an operation on that document:
  \<^item> Move (within a column or across columns): the card ids of the document are pairwise
    distinct, the card is at position \<open>from.index\<close> of the column \<open>from.columnId\<close>, and
    a column \<open>to.columnId\<close> exists;
  \<^item> Create: no card of the document has the new card's id;
  \<^item> Edit: \<open>oldValues\<close> are the card's current values, an absent description or
    assignee recorded as the empty string (so neither is the empty string on the card);
  \<^item> Delete: the command's card is the card of column \<open>columnId\<close> at position \<open>index\<close>,
    the first one there with its id.
\<close>

theorem reverse_after_execute:
  "(distinct (all_card_ids cols) \<and> findCardLocation cols cardId = Some (ci, k) \<and>
    findColumn cols (columnId src) = Some ci \<and> index src = int k \<and>
    findColumn cols (columnId dst) = Some tj
    \<longrightarrow> reverseCommand (executeCommand cols (Move b cardId cardTitle src dst))
          (Move b cardId cardTitle src dst) = cols) \<and>
   (card_id crd \<notin> set (all_card_ids cols)
    \<longrightarrow> reverseCommand (executeCommand cols (Create b crd colId)) (Create b crd colId) = cols) \<and>
   (findCardLocation cols editId = Some (ce, ke) \<and>
    ev_title oldValues = card_title (card_at cols ce ke) \<and>
    ev_priority oldValues = card_priority (card_at cols ce ke) \<and>
    or_undefined (ev_description oldValues) = card_description (card_at cols ce ke) \<and>
    or_undefined (ev_assignee oldValues) = card_assignee (card_at cols ce ke)
    \<longrightarrow> reverseCommand (executeCommand cols (Edit b editId oldValues newValues))
          (Edit b editId oldValues newValues) = cols) \<and>
   (findColumn cols delColId = Some cd \<and>
    findIndex (\<lambda>c. card_id c = card_id gone) (col_cards (cols ! cd)) = Some kd \<and>
    col_cards (cols ! cd) ! kd = gone \<and> idx = int kd
    \<longrightarrow> reverseCommand (executeCommand cols (Delete b gone delColId idx))
          (Delete b gone delColId idx) = cols)"
  using move_round_trip [of cols cardId ci k src dst tj b cardTitle]
    create_round_trip [of crd cols b colId]
    edit_round_trip [of cols editId ce ke oldValues b newValues]
    delete_round_trip [of cols delColId cd gone kd idx b]
  by blast

theorem reverse_after_execute_witness:
  "distinct (all_card_ids demo_columns) \<and>
   findCardLocation demo_columns (js ''a'') = Some (0, 0) \<and>
   findColumn demo_columns (js ''todo'') = Some 0 \<and> findColumn demo_columns (js ''done'') = Some 1 \<and>
   reverseCommand (executeCommand demo_columns demo_move_across) demo_move_across = demo_columns \<and>
   js ''n'' \<notin> set (all_card_ids demo_columns) \<and>
   reverseCommand (executeCommand demo_columns (demo_create 1)) (demo_create 1) = demo_columns \<and>
   findCardLocation demo_columns (js ''b'') = Some (0, 1) \<and>
   reverseCommand (executeCommand demo_columns demo_edit) demo_edit = demo_columns \<and>
   findIndex (\<lambda>c. card_id c = js ''c'') (col_cards (demo_columns ! 0)) = Some 2 \<and>
   reverseCommand (executeCommand demo_columns demo_delete) demo_delete = demo_columns"
proof -
  have h: "distinct (all_card_ids demo_columns)"
    "findCardLocation demo_columns (js ''a'') = Some (0, 0)"
    "findColumn demo_columns (js ''todo'') = Some 0" "findColumn demo_columns (js ''done'') = Some 1"
    "(js ''n'') \<notin> set (all_card_ids demo_columns)"
    "findCardLocation demo_columns (js ''b'') = Some (0, 1)"
    "findIndex (\<lambda>c. card_id c = js ''c'') (col_cards (demo_columns ! 0)) = Some 2"
    "card_at demo_columns 0 1 = mk_card (js ''b'') (js ''B'')"
    "col_cards (demo_columns ! 0) ! 2 = mk_card (js ''c'') (js ''C'')"
    by (simp_all add: demo_columns_def all_card_ids_def mk_card_def findColumn_def card_at_def)
  from h
    reverse_after_execute [where cols = demo_columns and cardId = "js ''a''" and ci = 0 and k = 0
      and src = "\<lparr>columnId = js ''todo'', index = 0\<rparr>" and dst = "\<lparr>columnId = js ''done'', index = 1\<rparr>"
      and tj = 1 and b = "\<lparr>timestamp = 5, description = js ''To Do '' @ arrow @ js '' Done'', seqId = 1\<rparr>"
      and cardTitle = "js ''A''"]
    reverse_after_execute [where cols = demo_columns and crd = "mk_card (js ''n'') (js ''N'')"
      and b = "\<lparr>timestamp = 0, description = [], seqId = 1\<rparr>" and colId = "js ''done''"]
    reverse_after_execute [where cols = demo_columns and editId = "js ''b''" and ce = 0 and ke = 1
      and b = "\<lparr>timestamp = 5, description = [], seqId = 2\<rparr>"
      and oldValues = "\<lparr>ev_title = js ''B'', ev_priority = Medium, ev_description = [], ev_assignee = []\<rparr>"
      and newValues = "\<lparr>ev_title = js ''B2'', ev_priority = High, ev_description = js ''text'', ev_assignee = []\<rparr>"]
    reverse_after_execute [where cols = demo_columns and delColId = "js ''todo''" and cd = 0
      and gone = "mk_card (js ''c'') (js ''C'')" and kd = 2 and idx = 2
      and b = "\<lparr>timestamp = 5, description = js ''C'', seqId = 3\<rparr>"]
  show ?thesis
    by (simp add: demo_move_across_def demo_create_def demo_edit_def demo_delete_def
        mk_card_def or_undefined_def)
qed

text \<open>
  The claim as stated, for every document and every command, fails: a delete command
  for a card that is not on the board is undone by inserting the card; on a board with
  two cards of one id the reverse of a move takes the other card; and the edit that
  \<open>performEdit\<close> records for a card whose description is the empty string is undone to
  an absent description.
\<close>

theorem reverse_after_execute_counterexample:
  "reverseCommand (executeCommand demo_columns demo_stray_delete) demo_stray_delete \<noteq> demo_columns \<and>
   reverseCommand (executeCommand demo_twins demo_move_across) demo_move_across \<noteq> demo_twins \<and>
   map_sum id columns (performUndo (kctx (performEdit 5 demo_blank))) \<noteq> Inr demo_blank_columns"
proof -
  have a: "reverseCommand (executeCommand demo_columns demo_stray_delete) demo_stray_delete \<noteq> demo_columns"
    by (simp add: demo_columns_def demo_stray_delete_def mk_card_def findColumn_def
        upd_cards_def splice_ins_def splice_pos_def)
  have b: "reverseCommand (executeCommand demo_twins demo_move_across) demo_move_across \<noteq> demo_twins"
    by (simp add: demo_twins_def demo_move_across_def mk_card_def findColumn_def card_at_def
        upd_cards_def splice_ins_def splice_del_def splice_pos_def)
  have c: "map_sum id columns (performUndo (kctx (performEdit 5 demo_blank))) \<noteq> Inr demo_blank_columns"
    by (simp add: demo_blank_def demo_blank_columns_def demo_context_def mk_card_def
        performEdit_def performUndo_def Let_def truthy_def sanitizeTitle_def trim_def isSpace_def js_def
        MAX_TITLE_LENGTH_def card_at_def upd_cards_def pushCommand_def slice_to_def
        MAX_HISTORY_SIZE_def at_index_def set_values_def or_undefined_def or_empty_def)
  from a b c show ?thesis by blast
qed


section \<open>Undo, then redo\<close>

lemma demo_reorder_eval:
  "kctx demo_reorder =
     demo_context\<lparr>columns := upd_cards 0 (\<lambda>cs. [cs ! 1, cs ! 0, cs ! 2]) demo_columns,
                   dropPosition := After, history := [demo_move], historyIndex := 0\<rparr>"
  by (simp add: demo_reorder_def demo_drag_def handleDropOnColumn_def Let_def truthy_def
      demo_context_def demo_columns_def findColumn_def mk_card_def card_at_def upd_cards_def
      splice_del_def splice_ins_def splice_pos_def pushCommand_def slice_to_def MAX_HISTORY_SIZE_def
      resetDragState_def demo_move_def js_def)

text \<open>
  Claim C2 fails on the code for a move inside one column. On the small board, card \<open>a\<close>
  is dragged from the first position and dropped after card \<open>b\<close>: \<open>handleDropOnColumn\<close>
  leaves \<open>b, a, c\<close> and records the move with \<open>to.index = 2\<close>, the position before the
  card was taken out. Undo restores \<open>a, b, c\<close>; redo takes the card out and inserts it
  at position 2 of the two cards left, which gives \<open>b, c, a\<close>.
\<close>

theorem redo_of_in_column_move:
  "column_ids (columns (kctx demo_reorder)) = [[js ''b'', js ''a'', js ''c''], [js ''d'']] \<and>
   history (kctx demo_reorder) = [demo_move] \<and> historyIndex (kctx demo_reorder) = 0 \<and>
   performUndo (kctx demo_reorder) =
     Inr ((kctx demo_reorder)\<lparr>columns := demo_columns, historyIndex := - 1\<rparr>) \<and>
   map_sum id (\<lambda>c. column_ids (columns c))
     (performRedo ((kctx demo_reorder)\<lparr>columns := demo_columns, historyIndex := - 1\<rparr>)) =
     Inr [[js ''b'', js ''c'', js ''a''], [js ''d'']]"
  unfolding demo_reorder_eval
  by (simp add: performUndo_def performRedo_def at_index_def demo_move_def column_ids_def
       demo_context_def demo_columns_def findColumn_def mk_card_def card_at_def upd_cards_def
      splice_del_def splice_ins_def splice_pos_def)


section \<open>The drag session\<close>

lemma resetDragState_fields:
  "draggedCardId (resetDragState c) = None \<and> sourceColumnId (resetDragState c) = None \<and>
   dropTargetColumnId (resetDragState c) = None \<and> dropTargetCardId (resetDragState c) = None \<and>
   dropPosition (resetDragState c) = dropPosition c"
  by (simp add: resetDragState_def)

lemma pushCommand_dropPosition: "dropPosition (pushCommand c cmd) = dropPosition c"
  by (simp add: pushCommand_def Let_def)

text \<open>
  Claim C7, as amended. After \<open>handleDragEnd\<close>, and after \<open>handleDropOnColumn\<close> on a drop
  whose dragged card, source column and target column are found (whether the card is
  moved or the drop leaves it where it was), the dragged card id, the source column id,
  the drop target column id and the drop target card id are \<open>null\<close>; the drop position
  keeps the value it had.
\<close>

theorem drag_session_reset:
  "(let c' = kctx (handleDragEnd s) in
      draggedCardId c' = None \<and> sourceColumnId c' = None \<and> dropTargetColumnId c' = None \<and>
      dropTargetCardId c' = None \<and> dropPosition c' = dropPosition (kctx s)) \<and>
   (draggedCardId (kctx s) = Some dragged \<and> dragged \<noteq> [] \<and>
    sourceColumnId (kctx s) = Some srcId \<and> srcId \<noteq> [] \<and> col_id column \<noteq> [] \<and>
    findColumn (columns (kctx s)) srcId = Some si \<and>
    findColumn (columns (kctx s)) (col_id column) = Some ti \<and>
    findIndex (\<lambda>k. card_id k = dragged) (col_cards (columns (kctx s) ! si)) = Some cardIndex
    \<longrightarrow>
    (let c' = kctx (handleDropOnColumn now (Some column) s) in
      draggedCardId c' = None \<and> sourceColumnId c' = None \<and> dropTargetColumnId c' = None \<and>
      dropTargetCardId c' = None \<and> dropPosition c' = dropPosition (kctx s)))"
  by (simp add: handleDragEnd_def handleDropOnColumn_def Let_def truthy_def
      resetDragState_fields pushCommand_dropPosition)

theorem drag_session_reset_witness:
  "draggedCardId (kctx demo_drag) = Some (js ''a'') \<and> sourceColumnId (kctx demo_drag) = Some (js ''todo'') \<and>
   findColumn (columns (kctx demo_drag)) (js ''todo'') = Some 0 \<and>
   findColumn (columns (kctx demo_drag)) (js ''done'') = Some 1 \<and>
   findIndex (\<lambda>k. card_id k = js ''a'') (col_cards (columns (kctx demo_drag) ! 0)) = Some 0 \<and>
   draggedCardId (kctx (handleDropOnColumn 5 (Some (demo_columns ! 1)) demo_drag)) = None \<and>
   sourceColumnId (kctx (handleDropOnColumn 5 (Some (demo_columns ! 1)) demo_drag)) = None \<and>
   dropTargetColumnId (kctx (handleDropOnColumn 5 (Some (demo_columns ! 1)) demo_drag)) = None \<and>
   dropTargetCardId (kctx (handleDropOnColumn 5 (Some (demo_columns ! 1)) demo_drag)) = None \<and>
   draggedCardId (kctx (handleDragEnd demo_drag)) = None"
proof -
  have h: "draggedCardId (kctx demo_drag) = Some (js ''a'')" "sourceColumnId (kctx demo_drag) = Some (js ''todo'')"
    "findColumn (columns (kctx demo_drag)) (js ''todo'') = Some 0"
    "findColumn (columns (kctx demo_drag)) (col_id (demo_columns ! 1)) = Some 1"
    "findIndex (\<lambda>k. card_id k = js ''a'') (col_cards (columns (kctx demo_drag) ! 0)) = Some 0"
    "col_id (demo_columns ! 1) = js ''done''"
    by (simp_all add: demo_drag_def demo_context_def demo_columns_def findColumn_def mk_card_def)
  from drag_session_reset [of demo_drag "js ''a''" "js ''todo''" "demo_columns ! 1" 0 1 0 5] h
  show ?thesis by (simp add: Let_def)
qed

text \<open>
  The claim as stated fails: the drop position is not reset, neither by
  \<open>handleDragEnd\<close> nor by a drop that moves the card (whether it was \<open>after\<close> or
  \<open>before\<close>); and a drop that returns at the first guard leaves the drop target column
  in place.
\<close>

theorem drag_session_reset_counterexample:
  "dropPosition (kctx (handleDragEnd demo_drag)) = After \<and>
   dropPosition (kctx (handleDragEnd (demo_drag\<lparr>kctx := (kctx demo_drag)\<lparr>dropPosition := Before\<rparr>\<rparr>))) = Before \<and>
   dropPosition (kctx (handleDropOnColumn 5 (Some (demo_columns ! 1)) demo_drag)) = After \<and>
   dropTargetColumnId (kctx (handleDropOnColumn 5 (Some (demo_columns ! 1)) demo_external_drag)) = Some (js ''done'')"
  by (simp add: handleDragEnd_def handleDropOnColumn_def resetDragState_def demo_drag_def demo_external_drag_def Let_def truthy_def
     demo_context_def demo_columns_def findColumn_def mk_card_def pushCommand_dropPosition)


section \<open>Failing edits and creations\<close>

text \<open>
  Claim C10. The sanitized title is the title trimmed of all white space that
  \<open>String.prototype.trim\<close> strips and cut to its first 200 code units.
  \<open>performEdit\<close> with an empty sanitized title, no card being edited or an
  edited card that is not found only sets \<open>editingCardId\<close> to \<open>null\<close>. \<open>createCard\<close> with
  an empty sanitized title or no column id changes nothing, and with a column that is
  not found only resets the new-card modal. In each case the columns, the log, its index
  and the sequence counter are as before: no command is pushed.
\<close>

theorem edit_create_atomic_on_failure:
  "(sanitizeTitle (editTitle (kctx s)) = [] \<or> \<not> truthy (editingCardId (kctx s)) \<or>
    (\<exists>eid. editingCardId (kctx s) = Some eid \<and> findCardLocation (columns (kctx s)) eid = None)
    \<longrightarrow> performEdit now s = s\<lparr>kctx := (kctx s)\<lparr>editingCardId := None\<rparr>\<rparr>) \<and>
   (sanitizeTitle (newCardTitle (kctx s)) = [] \<or> \<not> truthy (newCardColumnId (kctx s))
    \<longrightarrow> createCard newId createdAt now s = s) \<and>
   (sanitizeTitle (newCardTitle (kctx s)) \<noteq> [] \<and>
    (\<exists>colId. newCardColumnId (kctx s) = Some colId \<and> colId \<noteq> [] \<and>
       findColumn (columns (kctx s)) colId = None)
    \<longrightarrow> createCard newId createdAt now s = s\<lparr>kctx := resetNewCardModal (kctx s)\<rparr>)"
  by (auto simp: performEdit_def createCard_def Let_def truthy_def split: option.splits)

theorem edit_create_atomic_on_failure_witness:
  "sanitizeTitle (editTitle (kctx demo_drag)) = [] \<and>
   sanitizeTitle (newCardTitle (kctx demo_drag)) = [] \<and>
   performEdit 5 demo_drag = demo_drag \<and>
   createCard (js ''n'') 5 5 demo_drag = demo_drag \<and>
   sanitizeTitle (newCardTitle (kctx demo_gone)) = js ''New'' \<and>
   newCardColumnId (kctx demo_gone) = Some (js ''gone'') \<and>
   findColumn (columns (kctx demo_gone)) (js ''gone'') = None \<and>
   createCard (js ''n'') 5 5 demo_gone =
     demo_gone\<lparr>kctx := (kctx demo_gone)\<lparr>newCardModalOpen := False, newCardColumnId := None, newCardTitle := []\<rparr>\<rparr> \<and>
   findCardLocation (columns (kctx demo_gone)) (js ''zz'') = None \<and>
   performEdit 5 demo_gone = demo_gone\<lparr>kctx := (kctx demo_gone)\<lparr>editingCardId := None\<rparr>\<rparr> \<and>
   sanitizeTitle (newCardTitle (kctx demo_nbsp)) = [] \<and>
   sanitizeTitle (editTitle (kctx demo_nbsp)) = [] \<and>
   createCard (js ''n'') 5 5 demo_nbsp = demo_nbsp \<and>
   performEdit 5 demo_nbsp = demo_nbsp\<lparr>kctx := (kctx demo_nbsp)\<lparr>editingCardId := None\<rparr>\<rparr>"
proof -
  have h: "sanitizeTitle (editTitle (kctx demo_drag)) = []"
    "sanitizeTitle (newCardTitle (kctx demo_drag)) = []"
    "sanitizeTitle (newCardTitle (kctx demo_gone)) = js ''New''"
    "newCardColumnId (kctx demo_gone) = Some (js ''gone'')"
    "findColumn (columns (kctx demo_gone)) (js ''gone'') = None"
    "editingCardId (kctx demo_gone) = Some (js ''zz'')"
    "findCardLocation (columns (kctx demo_gone)) (js ''zz'') = None"
    "sanitizeTitle (newCardTitle (kctx demo_nbsp)) = []"
    "sanitizeTitle (editTitle (kctx demo_nbsp)) = []"
    by (simp_all add: demo_drag_def demo_gone_def demo_nbsp_def demo_context_def demo_columns_def
         findColumn_def mk_card_def
         sanitizeTitle_def trim_def isSpace_def js_def MAX_TITLE_LENGTH_def)
  have e: "(kctx demo_drag)\<lparr>editingCardId := None\<rparr> = kctx demo_drag"
    by (simp add: demo_drag_def demo_context_def)
  from edit_create_atomic_on_failure [of demo_drag 5 "js ''n''" 5]
    edit_create_atomic_on_failure [of demo_gone 5 "js ''n''" 5]
    edit_create_atomic_on_failure [of demo_nbsp 5 "js ''n''" 5] h e
  show ?thesis by (simp add: resetNewCardModal_def demo_gone_def demo_context_def)
qed


section \<open>Stale searches\<close>

lemma updateQuery_resume_superseded:
  "pendingSearchId c \<noteq> Some searchId \<Longrightarrow> updateQuery_resume searchId outcome c = c"
  by (simp add: updateQuery_resume_def split: settled.splits)

lemma updateQuery_start_supersedes:
  "trim q \<noteq> [] \<Longrightarrow> pendingSearchId c = Some searchId \<Longrightarrow>
   pendingSearchId (fst (updateQuery_start q c)) = Some (searchId + 1)"
  by (simp add: updateQuery_start_def Let_def)

text \<open>
  Claim C4 fails on the code when the later invocation has a blank query. A search for
  \<open>react\<close> starts with id 1; before it resolves the input is cleared, and \<open>updateQuery\<close>
  returns early without a new id. When the first search resolves, its id is still the
  pending one: its results are written and \<open>isLoading\<close> is cleared.
\<close>

theorem stale_search_after_clearing:
  "(let (c1, id1) = updateQuery_start (js ''react'') demo_search;
        (c2, id2) = updateQuery_start [] c1;
        c3 = updateQuery_resume 1 (Fulfilled [demo_hit]) c2
    in id1 = Some 1 \<and> id2 = None \<and> query c2 = [] \<and> results c2 = [] \<and> isLoading c2 \<and>
       pendingSearchId c2 = Some 1 \<and>
       results c3 = [demo_hit] \<and> \<not> isLoading c3)"
  by (simp add: updateQuery_start_def updateQuery_resume_def demo_search_def trim_def isSpace_def js_def Let_def)


end
